theory Spec2Isabelle
  imports Complex_Main "HOL-Library.AList"
begin

section \<open>Strings and errors\<close>

text \<open>
  A JavaScript \<^verbatim>\<open>Error\<close> is modelled by the one field the program reads, its message.
  A string is a HOL string; a character beyond ASCII stands as the bytes of its UTF-8
  encoding, among which no ASCII byte occurs.
\<close>

record Error =
  message :: string

text \<open>\<^verbatim>\<open>String.prototype.startsWith\<close> and \<^verbatim>\<open>String.prototype.includes\<close> (named includesStr here).\<close>

fun startsWith :: "string \<Rightarrow> string \<Rightarrow> bool" where
  "startsWith s [] = True"
| "startsWith [] (p # ps) = False"
| "startsWith (c # cs) (p # ps) = (c = p \<and> startsWith cs ps)"

fun includesStr :: "string \<Rightarrow> string \<Rightarrow> bool" where
  "includesStr [] p = (p = [])"
| "includesStr (c # cs) p = (startsWith (c # cs) p \<or> includesStr cs p)"

section \<open>The JavaScript host\<close>

text \<open>A JavaScript number: a finite value, an infinity or \<^verbatim>\<open>NaN\<close>.\<close>

datatype JSNumber = Finite real | PosInfinity | NegInfinity | NaN

text \<open>
  The built-ins of the language that the program calls are parameters, so that nothing
  is assumed of them: \<^verbatim>\<open>String.prototype.toLowerCase\<close>, which lower-cases by the Unicode
  case mappings; the arithmetic of double-precision numbers (\<^verbatim>\<open>*\<close>, \<^verbatim>\<open>+\<close>, \<^verbatim>\<open>-\<close>) with its
  rounding, overflow and \<^verbatim>\<open>NaN\<close>; \<^verbatim>\<open>Math.pow\<close>, \<^verbatim>\<open>Math.min\<close> and \<^verbatim>\<open>Math.round\<close>; and the
  conversion of a number to a string in a template literal.
\<close>

record Host =
  String_toLowerCase :: "string \<Rightarrow> string"
  Number_multiply :: "JSNumber \<Rightarrow> JSNumber \<Rightarrow> JSNumber"
  Number_add :: "JSNumber \<Rightarrow> JSNumber \<Rightarrow> JSNumber"
  Number_subtract :: "JSNumber \<Rightarrow> JSNumber \<Rightarrow> JSNumber"
  Math_pow :: "JSNumber \<Rightarrow> JSNumber \<Rightarrow> JSNumber"
  Math_min :: "JSNumber \<Rightarrow> JSNumber \<Rightarrow> JSNumber"
  Math_round :: "JSNumber \<Rightarrow> JSNumber"
  Number_toString :: "JSNumber \<Rightarrow> string"

section \<open>Transient-failure classifier (client.ts, isTransientError)\<close>

definition isTransientError :: "Host \<Rightarrow> Error \<Rightarrow> bool" where
  "isTransientError H error =
     (let message = String_toLowerCase H (message error) in
      if includesStr message ''econnrefused'' then True
      else if includesStr message ''econnreset'' then True
      else if includesStr message ''etimedout'' then True
      else if includesStr message ''enotfound'' then True
      else if includesStr message ''epipe'' then True
      else if includesStr message ''network'' then True
      else if includesStr message ''502'' then True
      else if includesStr message ''503'' then True
      else if includesStr message ''504'' then True
      else if includesStr message ''429'' then True
      else if includesStr message ''connection'' then True
      else if includesStr message ''timeout'' then True
      else False)"




section \<open>Retry policy and backoff scheduler (client.ts)\<close>

text \<open>
  \<^verbatim>\<open>RetryConfig\<close>. The retry count is a natural number; the two delays are JavaScript
  numbers.
\<close>

record RetryConfig =
  maxRetries :: nat
  baseDelayMs :: JSNumber
  maxDelayMs :: JSNumber

definition DEFAULT_RETRY_CONFIG :: RetryConfig where
  "DEFAULT_RETRY_CONFIG =
     \<lparr>maxRetries = 3, baseDelayMs = Finite 1000, maxDelayMs = Finite 10000\<rparr>"

text \<open>
  \<^verbatim>\<open>calculateDelay(attempt, config)\<close>, operation by operation on the numbers of the host.
  The third argument is the number that the call of \<^verbatim>\<open>Math.random()\<close> inside the function
  returns.
\<close>

definition calculateDelay :: "Host \<Rightarrow> nat \<Rightarrow> RetryConfig \<Rightarrow> JSNumber \<Rightarrow> JSNumber" where
  "calculateDelay H attempt config random =
     (let exponentialDelay =
            Number_multiply H (baseDelayMs config) (Math_pow H (Finite 2) (Finite (real attempt)));
          cappedDelay = Math_min H exponentialDelay (maxDelayMs config);
          jitter = Number_multiply H (Number_multiply H cappedDelay (Finite 0.25))
                     (Number_subtract H (Number_multiply H random (Finite 2)) (Finite 1))
      in Math_round H (Number_add H cappedDelay jitter))"

section \<open>The process: environment, random numbers, stderr, timers\<close>

text \<open>
  The effects of the program are written on an explicit state: the state \<open>world\<close> of
  everything outside the process (the servers and the protocol library's sessions), the
  process environment (an entry may be undefined), the numbers \<^verbatim>\<open>Math.random()\<close> will
  return, the lines written with \<^verbatim>\<open>console.error\<close> and the delays slept, oldest first.
\<close>

record 'w Runtime =
  world :: 'w
  process_env :: "(string \<times> string option) list"
  random_source :: "nat \<Rightarrow> JSNumber"
  random_calls :: nat
  stderr :: "string list"
  sleeps :: "JSNumber list"

definition Math_random :: "'w Runtime \<Rightarrow> JSNumber \<times> 'w Runtime" where
  "Math_random rt = (random_source rt (random_calls rt), rt\<lparr>random_calls := Suc (random_calls rt)\<rparr>)"

definition console_error :: "string \<Rightarrow> 'w Runtime \<Rightarrow> 'w Runtime" where
  "console_error line rt = rt\<lparr>stderr := stderr rt @ [line]\<rparr>"

definition sleep :: "JSNumber \<Rightarrow> 'w Runtime \<Rightarrow> 'w Runtime" where
  "sleep ms rt = rt\<lparr>sleeps := sleeps rt @ [ms]\<rparr>"

text \<open>\<^verbatim>\<open>process.env.MCP_DEBUG\<close> as a condition: defined and not the empty string.\<close>

definition MCP_DEBUG :: "'w Runtime \<Rightarrow> bool" where
  "MCP_DEBUG rt = (case map_of (process_env rt) ''MCP_DEBUG'' of
                     Some (Some v) \<Rightarrow> v \<noteq> []
                   | _ \<Rightarrow> False)"

text \<open>Decimal rendering of the counters that the diagnostics interpolate.\<close>

definition digit :: "nat \<Rightarrow> char" where
  "digit d = ''0123456789'' ! d"

function show_nat :: "nat \<Rightarrow> string" where
  "show_nat n = (if n < 10 then [digit n] else show_nat (n div 10) @ [digit (n mod 10)])"
  by pat_completeness auto
termination
  by (relation "measure id") auto

declare show_nat.simps [simp del]

section \<open>Retry executor (client.ts, withRetry)\<close>

text \<open>
  The retry branch of the loop body: draw the jitter, compute the delay, write the
  diagnostic when \<^verbatim>\<open>MCP_DEBUG\<close> is set, sleep.
\<close>

definition retry_pause ::
  "Host \<Rightarrow> string \<Rightarrow> RetryConfig \<Rightarrow> nat \<Rightarrow> Error \<Rightarrow> 'w Runtime \<Rightarrow> 'w Runtime" where
  "retry_pause H operationName config attempt lastError rt =
     (let (random, rt1) = Math_random rt;
          delay = calculateDelay H attempt config random;
          rt2 = (if MCP_DEBUG rt1
                 then console_error
                        (''[retry] '' @ operationName @ '' failed (attempt '' @ show_nat (attempt + 1)
                          @ ''/'' @ show_nat (maxRetries config + 1) @ ''): '' @ message lastError
                          @ ''. Retrying in '' @ Number_toString H delay @ ''ms...'') rt1
                 else rt1)
      in sleep delay rt2)"

text \<open>
  An operation \<^verbatim>\<open>fn\<close> is a state transformer that returns its value (\<open>Inr\<close>) or the
  error it throws (\<open>Inl\<close>). \<^verbatim>\<open>lastError\<close> is \<^verbatim>\<open>Error | undefined\<close>, and so is what
  \<^verbatim>\<open>withRetry\<close> throws: \<open>Inl None\<close> is \<^verbatim>\<open>throw undefined\<close>.
\<close>

function withRetry_loop ::
  "Host \<Rightarrow> ('w Runtime \<Rightarrow> (Error + 'a) \<times> 'w Runtime) \<Rightarrow> string \<Rightarrow> RetryConfig \<Rightarrow> nat \<Rightarrow> Error option
   \<Rightarrow> 'w Runtime \<Rightarrow> (Error option + 'a) \<times> 'w Runtime" where
  "withRetry_loop H fn operationName config attempt lastError rt =
     (if attempt \<le> maxRetries config then
        (case fn rt of
           (Inr v, rt1) \<Rightarrow> (Inr v, rt1)
         | (Inl error, rt1) \<Rightarrow>
             if attempt < maxRetries config \<and> isTransientError H error
             then withRetry_loop H fn operationName config (attempt + 1) (Some error)
                    (retry_pause H operationName config attempt error rt1)
             else (Inl (Some error), rt1))
      else (Inl lastError, rt))"
  by pat_completeness auto
termination
  by (relation "measure (\<lambda>(H, fn, operationName, config, attempt, lastError, rt).
                  maxRetries config + 1 - attempt)") auto

declare withRetry_loop.simps [simp del]

definition withRetry ::
  "Host \<Rightarrow> ('w Runtime \<Rightarrow> (Error + 'a) \<times> 'w Runtime) \<Rightarrow> string \<Rightarrow> RetryConfig
   \<Rightarrow> 'w Runtime \<Rightarrow> (Error option + 'a) \<times> 'w Runtime" where
  "withRetry H fn operationName config rt = withRetry_loop H fn operationName config 0 None rt"

section \<open>Server configuration (config.ts)\<close>

text \<open>
  \<^verbatim>\<open>ServerConfig\<close> is a union told apart by the fields that are present, so a descriptor
  is a record of optional fields: \<open>None\<close> is an absent key. An object with string values
  is an association list in the order of its keys.
\<close>

record ServerConfig =
  command :: "string option"
  args :: "string list option"
  env :: "(string \<times> string) list option"
  cwd :: "string option"
  url :: "string option"
  headers :: "(string \<times> string) list option"
  timeout :: "real option"

record McpServersConfig =
  mcpServers :: "(string \<times> ServerConfig) list"

definition isHttpServer :: "ServerConfig \<Rightarrow> bool" where
  "isHttpServer config = (url config \<noteq> None)"

definition isStdioServer :: "ServerConfig \<Rightarrow> bool" where
  "isStdioServer config = (command config \<noteq> None)"

definition listServerNames :: "McpServersConfig \<Rightarrow> string list" where
  "listServerNames config = map fst (mcpServers config)"

section \<open>The protocol library and the other collaborators\<close>

text \<open>
  Opaque JSON data (\<^verbatim>\<open>Record<string, unknown>\<close>), the tool descriptor of the protocol
  library and the three fields the program keeps of it.
\<close>

datatype Json = JNull | JBool bool | JNumber real | JString string
  | JArray "Json list" | JObject "(string \<times> Json) list"

record Tool =
  name :: string
  description :: "string option"
  inputSchema :: Json
  annotations :: "Json option"

record ToolInfo =
  name :: string
  description :: "string option"
  inputSchema :: Json

text \<open>
  The transport objects of the protocol library hold what their constructors are given:
  the stdio transport its command, arguments, environment and working directory, the
  HTTP transport its parsed URL and the request headers. A client object holds its
  name and version and the transport it is connected over.
\<close>

datatype Transport =
    StdioClientTransport "string option" "string list option" "(string \<times> string) list" "string option"
  | StreamableHTTPClientTransport string "(string \<times> string) list option"

datatype Client = Client string string Transport

record ConnectedClient =
  client :: Client

text \<open>
  What the program calls and this repository does not define is a parameter: the \<^verbatim>\<open>URL\<close>
  built-ins of the host, the \<^verbatim>\<open>URL\<close> constructor (it throws on a malformed URL), the
  operations of a client object on the world outside the process, each returning or
  throwing, the message of the server-not-found error (errors.ts) and the version string
  (version.ts).
\<close>

record 'w Externals =
  host :: Host
  new_URL :: "string \<Rightarrow> Error + string"
  client_connect :: "Client \<Rightarrow> 'w \<Rightarrow> (Error + unit) \<times> 'w"
  client_listTools :: "Client \<Rightarrow> 'w \<Rightarrow> (Error + Tool list) \<times> 'w"
  client_close :: "Client \<Rightarrow> 'w \<Rightarrow> (Error + unit) \<times> 'w"
  serverNotFoundMessage :: "string \<Rightarrow> string list \<Rightarrow> string"
  VERSION :: string

text \<open>An operation on the outside world, run in the process.\<close>

definition on_world :: "('w \<Rightarrow> 'r \<times> 'w) \<Rightarrow> 'w Runtime \<Rightarrow> 'r \<times> 'w Runtime" where
  "on_world f rt = (case f (world rt) of (r, w) \<Rightarrow> (r, rt\<lparr>world := w\<rparr>))"

text \<open>\<^verbatim>\<open>getServerConfig\<close> (config.ts).\<close>

definition getServerConfig :: "'w Externals \<Rightarrow> McpServersConfig \<Rightarrow> string \<Rightarrow> Error + ServerConfig" where
  "getServerConfig X config serverName =
     (case map_of (mcpServers config) serverName of
        None \<Rightarrow> Inl \<lparr>message = serverNotFoundMessage X serverName (map fst (mcpServers config))\<rparr>
      | Some server \<Rightarrow> Inr server)"

section \<open>Transport factory and sessions (client.ts)\<close>

text \<open>
  \<^verbatim>\<open>createHttpTransport\<close>. The \<^verbatim>\<open>URL\<close> constructor turns its argument into a string
  first, an absent \<^verbatim>\<open>url\<close> into \<^verbatim>\<open>"undefined"\<close>.
\<close>

definition createHttpTransport :: "'w Externals \<Rightarrow> ServerConfig \<Rightarrow> Error + Transport" where
  "createHttpTransport X config =
     (case new_URL X (case url config of Some u \<Rightarrow> u | None \<Rightarrow> ''undefined'') of
        Inl e \<Rightarrow> Inl e
      | Inr parsed \<Rightarrow> Inr (StreamableHTTPClientTransport parsed (headers config)))"

text \<open>
  \<^verbatim>\<open>createStdioTransport\<close>. An assignment \<^verbatim>\<open>mergedEnv[key] = value\<close> is an update of the
  association list; \<^verbatim>\<open>Object.assign\<close> assigns the entries of its source in their order.
\<close>

definition Object_assign :: "(string \<times> string) list \<Rightarrow> (string \<times> string) list \<Rightarrow> (string \<times> string) list" where
  "Object_assign target source = fold (\<lambda>(key, value) acc. AList.update key value acc) source target"

definition defined_env :: "(string \<times> string option) list \<Rightarrow> (string \<times> string) list" where
  "defined_env penv =
     fold (\<lambda>(key, value) mergedEnv.
             case value of Some v \<Rightarrow> AList.update key v mergedEnv | None \<Rightarrow> mergedEnv)
          penv []"

definition createStdioTransport :: "ServerConfig \<Rightarrow> 'w Runtime \<Rightarrow> Transport" where
  "createStdioTransport config rt =
     (let mergedEnv = defined_env (process_env rt);
          mergedEnv = (case env config of
                         Some e \<Rightarrow> Object_assign mergedEnv e
                       | None \<Rightarrow> mergedEnv)
      in StdioClientTransport (command config) (args config) mergedEnv (cwd config))"

text \<open>The environment that \<^verbatim>\<open>createStdioTransport\<close> hands to the transport.\<close>

fun transport_env :: "Transport \<Rightarrow> (string \<times> string) list" where
  "transport_env (StdioClientTransport c a e d) = e"
| "transport_env (StreamableHTTPClientTransport u h) = []"

text \<open>
  \<^verbatim>\<open>connectToServer\<close>: the choice of the transport (the \<^verbatim>\<open>if\<close> on \<^verbatim>\<open>isHttpServer\<close>), the
  operation given to \<^verbatim>\<open>withRetry\<close>, and the function itself.
\<close>

definition connectToServer_transport :: "'w Externals \<Rightarrow> ServerConfig \<Rightarrow> 'w Runtime \<Rightarrow> Error + Transport" where
  "connectToServer_transport X config rt =
     (if isHttpServer config then createHttpTransport X config
      else Inr (createStdioTransport config rt))"

definition connectToServer_fn ::
  "'w Externals \<Rightarrow> ServerConfig \<Rightarrow> 'w Runtime \<Rightarrow> (Error + ConnectedClient) \<times> 'w Runtime" where
  "connectToServer_fn X config rt =
     (case connectToServer_transport X config rt of
        Inl e \<Rightarrow> (Inl e, rt)
      | Inr transport \<Rightarrow>
          (case on_world (client_connect X (Client ''mcp-cli'' (VERSION X) transport)) rt of
             (Inl e, rt1) \<Rightarrow> (Inl e, rt1)
           | (Inr u, rt1) \<Rightarrow> (Inr \<lparr>client = Client ''mcp-cli'' (VERSION X) transport\<rparr>, rt1)))"

definition connectToServer ::
  "'w Externals \<Rightarrow> string \<Rightarrow> ServerConfig \<Rightarrow> 'w Runtime \<Rightarrow> (Error option + ConnectedClient) \<times> 'w Runtime" where
  "connectToServer X serverName config rt =
     withRetry (host X) (connectToServer_fn X config) (''connect to '' @ serverName)
       DEFAULT_RETRY_CONFIG rt"

text \<open>The \<^verbatim>\<open>close\<close> member of a connected client.\<close>

definition close :: "'w Externals \<Rightarrow> ConnectedClient \<Rightarrow> 'w Runtime \<Rightarrow> (Error + unit) \<times> 'w Runtime" where
  "close X conn rt = on_world (client_close X (client conn)) rt"

text \<open>\<^verbatim>\<open>listTools\<close> and \<^verbatim>\<open>getTool\<close>.\<close>

definition toToolInfo :: "Tool \<Rightarrow> ToolInfo" where
  "toToolInfo tool =
     \<lparr>ToolInfo.name = Tool.name tool, description = Tool.description tool,
      inputSchema = Tool.inputSchema tool\<rparr>"

definition listTools_fn :: "'w Externals \<Rightarrow> Client \<Rightarrow> 'w Runtime \<Rightarrow> (Error + ToolInfo list) \<times> 'w Runtime" where
  "listTools_fn X c rt =
     (case on_world (client_listTools X c) rt of
        (Inl e, rt1) \<Rightarrow> (Inl e, rt1)
      | (Inr result, rt1) \<Rightarrow> (Inr (map toToolInfo result), rt1))"

definition listTools :: "'w Externals \<Rightarrow> Client \<Rightarrow> 'w Runtime \<Rightarrow> (Error option + ToolInfo list) \<times> 'w Runtime" where
  "listTools X c rt = withRetry (host X) (listTools_fn X c) ''list tools'' DEFAULT_RETRY_CONFIG rt"

definition getTool ::
  "'w Externals \<Rightarrow> Client \<Rightarrow> string \<Rightarrow> 'w Runtime \<Rightarrow> (Error option + ToolInfo option) \<times> 'w Runtime" where
  "getTool X c toolName rt =
     (case listTools X c rt of
        (Inl e, rt1) \<Rightarrow> (Inl e, rt1)
      | (Inr tools, rt1) \<Rightarrow> (Inr (find (\<lambda>t. ToolInfo.name t = toolName) tools), rt1))"

text \<open>
  The effective environment as the specification words it: the entry of the descriptor
  where it has one, otherwise the ambient entry if its value is defined.
\<close>

definition effective_env ::
  "(string \<times> string option) list \<Rightarrow> (string \<times> string) list option \<Rightarrow> string \<Rightarrow> string option" where
  "effective_env ambient overlay key =
     (case map_of (case overlay of Some e \<Rightarrow> e | None \<Rightarrow> []) key of
        Some v \<Rightarrow> Some v
      | None \<Rightarrow> (case map_of ambient key of Some (Some v) \<Rightarrow> Some v | _ \<Rightarrow> None))"

text \<open>
  An operation is quiet when it leaves the process environment and stderr as they are.
\<close>

definition quiet :: "('w Runtime \<Rightarrow> 'r \<times> 'w Runtime) \<Rightarrow> bool" where
  "quiet f = (\<forall>rt. stderr (snd (f rt)) = stderr rt \<and> process_env (snd (f rt)) = process_env rt)"

section \<open>The list command (commands/list.ts)\<close>

record ServerWithTools =
  name :: string
  tools :: "ToolInfo list"

text \<open>
  A \<^verbatim>\<open>catch\<close> block reads \<^verbatim>\<open>(error as Error).message\<close>; on a thrown \<^verbatim>\<open>undefined\<close> that
  read throws a \<^verbatim>\<open>TypeError\<close>, which leaves the command.
\<close>

definition TypeError_undefined :: Error where
  "TypeError_undefined = \<lparr>message = ''undefined is not an object''\<rparr>"

text \<open>
  The \<^verbatim>\<open>try\<close> block of one iteration of the loop of \<^verbatim>\<open>listCommand\<close>, with its inner
  \<^verbatim>\<open>try ... finally\<close>: the result is what the block throws, if it throws, the list
  \<^verbatim>\<open>servers\<close> and the state at that moment. An error thrown by \<^verbatim>\<open>close()\<close> in the
  \<^verbatim>\<open>finally\<close> block replaces the outcome of the inner \<^verbatim>\<open>try\<close>.
\<close>

definition listCommand_try ::
  "'w Externals \<Rightarrow> McpServersConfig \<Rightarrow> string \<Rightarrow> ServerWithTools list \<Rightarrow> 'w Runtime
   \<Rightarrow> (Error option + unit) \<times> ServerWithTools list \<times> 'w Runtime" where
  "listCommand_try X config serverName servers rt =
     (case getServerConfig X config serverName of
        Inl e \<Rightarrow> (Inl (Some e), servers, rt)
      | Inr serverConfig \<Rightarrow>
          (case connectToServer X serverName serverConfig rt of
             (Inl e, rt1) \<Rightarrow> (Inl e, servers, rt1)
           | (Inr conn, rt1) \<Rightarrow>
               (case listTools X (client conn) rt1 of
                  (Inl e, rt2) \<Rightarrow>
                    (case close X conn rt2 of
                       (Inl e', rt3) \<Rightarrow> (Inl (Some e'), servers, rt3)
                     | (Inr u, rt3) \<Rightarrow> (Inl e, servers, rt3))
                | (Inr found, rt2) \<Rightarrow>
                    (case close X conn rt2 of
                       (Inl e', rt3) \<Rightarrow>
                         (Inl (Some e'), servers @ [\<lparr>ServerWithTools.name = serverName, tools = found\<rparr>], rt3)
                     | (Inr u, rt3) \<Rightarrow>
                         (Inr (), servers @ [\<lparr>ServerWithTools.name = serverName, tools = found\<rparr>], rt3)))))"

text \<open>The entry that the \<^verbatim>\<open>catch\<close> block records for a server.\<close>

definition error_entry :: "string \<Rightarrow> Error \<Rightarrow> ServerWithTools" where
  "error_entry serverName error =
     \<lparr>ServerWithTools.name = serverName,
      tools = [\<lparr>ToolInfo.name = ''<error: '' @ message error @ ''>'', description = None,
                inputSchema = JObject []\<rparr>]\<rparr>"

text \<open>One iteration (\<^verbatim>\<open>try\<close> and \<^verbatim>\<open>catch\<close>), and the loop over the server names.\<close>

definition listCommand_iteration ::
  "'w Externals \<Rightarrow> McpServersConfig \<Rightarrow> string \<Rightarrow> ServerWithTools list \<Rightarrow> 'w Runtime
   \<Rightarrow> (Error + ServerWithTools list) \<times> 'w Runtime" where
  "listCommand_iteration X config serverName servers rt =
     (case listCommand_try X config serverName servers rt of
        (Inr u, servers1, rt1) \<Rightarrow> (Inr servers1, rt1)
      | (Inl None, servers1, rt1) \<Rightarrow> (Inl TypeError_undefined, rt1)
      | (Inl (Some error), servers1, rt1) \<Rightarrow> (Inr (servers1 @ [error_entry serverName error]), rt1))"

fun listCommand_loop ::
  "'w Externals \<Rightarrow> McpServersConfig \<Rightarrow> string list \<Rightarrow> ServerWithTools list \<Rightarrow> 'w Runtime
   \<Rightarrow> (Error + ServerWithTools list) \<times> 'w Runtime" where
  "listCommand_loop X config [] servers rt = (Inr servers, rt)"
| "listCommand_loop X config (serverName # rest) servers rt =
     (case listCommand_iteration X config serverName servers rt of
        (Inl e, rt1) \<Rightarrow> (Inl e, rt1)
      | (Inr servers1, rt1) \<Rightarrow> listCommand_loop X config rest servers1 rt1)"

text \<open>\<^verbatim>\<open>listCommand\<close> from the loaded configuration to the list \<^verbatim>\<open>servers\<close> that it prints.\<close>

definition listCommand_servers ::
  "'w Externals \<Rightarrow> McpServersConfig \<Rightarrow> 'w Runtime \<Rightarrow> (Error + ServerWithTools list) \<times> 'w Runtime" where
  "listCommand_servers X config rt = listCommand_loop X config (listServerNames config) [] rt"

section \<open>The grep command (commands/grep.ts)\<close>

record SearchResult =
  server :: string
  tool :: ToolInfo

text \<open>
  The compiled pattern is used through \<^verbatim>\<open>pattern.test\<close> only, which is the parameter
  \<open>test\<close>. A description that is absent or empty does not match.
\<close>

definition tool_matches :: "(string \<Rightarrow> bool) \<Rightarrow> string \<Rightarrow> ToolInfo \<Rightarrow> bool" where
  "tool_matches test serverName t =
     (let fullPath = serverName @ ''/'' @ ToolInfo.name t;
          matchesName = test (ToolInfo.name t);
          matchesPath = test fullPath;
          matchesDescription = (case ToolInfo.description t of
                                  Some d \<Rightarrow> d \<noteq> [] \<and> test d
                                | None \<Rightarrow> False)
      in matchesName \<or> matchesPath \<or> matchesDescription)"

fun grepCommand_tools ::
  "(string \<Rightarrow> bool) \<Rightarrow> string \<Rightarrow> ToolInfo list \<Rightarrow> SearchResult list \<Rightarrow> SearchResult list" where
  "grepCommand_tools test serverName [] results = results"
| "grepCommand_tools test serverName (t # rest) results =
     grepCommand_tools test serverName rest
       (if tool_matches test serverName t then results @ [\<lparr>server = serverName, tool = t\<rparr>]
        else results)"

definition grepCommand_try ::
  "'w Externals \<Rightarrow> (string \<Rightarrow> bool) \<Rightarrow> McpServersConfig \<Rightarrow> string \<Rightarrow> SearchResult list \<Rightarrow> 'w Runtime
   \<Rightarrow> (Error option + unit) \<times> SearchResult list \<times> 'w Runtime" where
  "grepCommand_try X test config serverName results rt =
     (case getServerConfig X config serverName of
        Inl e \<Rightarrow> (Inl (Some e), results, rt)
      | Inr serverConfig \<Rightarrow>
          (case connectToServer X serverName serverConfig rt of
             (Inl e, rt1) \<Rightarrow> (Inl e, results, rt1)
           | (Inr conn, rt1) \<Rightarrow>
               (case listTools X (client conn) rt1 of
                  (Inl e, rt2) \<Rightarrow>
                    (case close X conn rt2 of
                       (Inl e', rt3) \<Rightarrow> (Inl (Some e'), results, rt3)
                     | (Inr u, rt3) \<Rightarrow> (Inl e, results, rt3))
                | (Inr found, rt2) \<Rightarrow>
                    (case close X conn rt2 of
                       (Inl e', rt3) \<Rightarrow>
                         (Inl (Some e'), grepCommand_tools test serverName found results, rt3)
                     | (Inr u, rt3) \<Rightarrow>
                         (Inr (), grepCommand_tools test serverName found results, rt3)))))"

definition grepCommand_iteration ::
  "'w Externals \<Rightarrow> (string \<Rightarrow> bool) \<Rightarrow> McpServersConfig \<Rightarrow> string \<Rightarrow> SearchResult list \<Rightarrow> 'w Runtime
   \<Rightarrow> (Error + SearchResult list) \<times> 'w Runtime" where
  "grepCommand_iteration X test config serverName results rt =
     (case grepCommand_try X test config serverName results rt of
        (Inr u, results1, rt1) \<Rightarrow> (Inr results1, rt1)
      | (Inl error, results1, rt1) \<Rightarrow>
          if MCP_DEBUG rt1 then
            (case error of
               None \<Rightarrow> (Inl TypeError_undefined, rt1)
             | Some e \<Rightarrow>
                 (Inr results1,
                  console_error (''Warning: Failed to connect to '' @ serverName @ '': '' @ message e) rt1))
          else (Inr results1, rt1))"

fun grepCommand_loop ::
  "'w Externals \<Rightarrow> (string \<Rightarrow> bool) \<Rightarrow> McpServersConfig \<Rightarrow> string list \<Rightarrow> SearchResult list \<Rightarrow> 'w Runtime
   \<Rightarrow> (Error + SearchResult list) \<times> 'w Runtime" where
  "grepCommand_loop X test config [] results rt = (Inr results, rt)"
| "grepCommand_loop X test config (serverName # rest) results rt =
     (case grepCommand_iteration X test config serverName results rt of
        (Inl e, rt1) \<Rightarrow> (Inl e, rt1)
      | (Inr results1, rt1) \<Rightarrow> grepCommand_loop X test config rest results1 rt1)"

definition grepCommand_results ::
  "'w Externals \<Rightarrow> (string \<Rightarrow> bool) \<Rightarrow> McpServersConfig \<Rightarrow> 'w Runtime
   \<Rightarrow> (Error + SearchResult list) \<times> 'w Runtime" where
  "grepCommand_results X test config rt = grepCommand_loop X test config (listServerNames config) [] rt"

section \<open>Example operations and states\<close>

text \<open>
  A host for the examples: it lower-cases the ASCII letters and the Kelvin sign (U+212A,
  in UTF-8 the bytes E2 84 AA, whose lower-case form is \<open>k\<close>), and computes exactly on
  finite numbers.
\<close>

definition example_toLowerChar :: "char \<Rightarrow> char" where
  "example_toLowerChar c =
     (case map_of (zip ''ABCDEFGHIJKLMNOPQRSTUVWXYZ'' ''abcdefghijklmnopqrstuvwxyz'') c of
        Some l \<Rightarrow> l
      | None \<Rightarrow> c)"

fun example_toLowerCase :: "string \<Rightarrow> string" where
  "example_toLowerCase (a # b # c # rest) =
     (if a = CHR 0xE2 \<and> b = CHR 0x84 \<and> c = CHR 0xAA then CHR ''k'' # example_toLowerCase rest
      else example_toLowerChar a # example_toLowerCase (b # c # rest))"
| "example_toLowerCase (a # rest) = example_toLowerChar a # example_toLowerCase rest"
| "example_toLowerCase [] = []"

definition show_int :: "int \<Rightarrow> string" where
  "show_int i = (if i < 0 then CHR ''-'' # show_nat (nat (- i)) else show_nat (nat i))"

definition exact :: "(real \<Rightarrow> real \<Rightarrow> real) \<Rightarrow> JSNumber \<Rightarrow> JSNumber \<Rightarrow> JSNumber" where
  "exact f x y = (case (x, y) of (Finite a, Finite b) \<Rightarrow> Finite (f a b) | _ \<Rightarrow> NaN)"

definition example_host :: Host where
  "example_host =
     \<lparr>String_toLowerCase = example_toLowerCase,
      Number_multiply = exact (\<lambda>a b. a * b),
      Number_add = exact (\<lambda>a b. a + b),
      Number_subtract = exact (\<lambda>a b. a - b),
      Math_pow = exact (\<lambda>a b. a ^ nat \<lfloor>b\<rfloor>),
      Math_min = exact min,
      Math_round = (\<lambda>x. case x of Finite a \<Rightarrow> Finite (of_int \<lfloor>a + 1 / 2\<rfloor>) | _ \<Rightarrow> x),
      Number_toString = (\<lambda>x. case x of
                                Finite a \<Rightarrow> show_int \<lfloor>a\<rfloor>
                              | PosInfinity \<Rightarrow> ''Infinity''
                              | NegInfinity \<Rightarrow> ''-Infinity''
                              | NaN \<Rightarrow> ''NaN'')\<rparr>"

text \<open>
  A process at rest over a world \<open>w\<close>: no environment, \<^verbatim>\<open>Math.random()\<close> returning one
  half, nothing written and nothing slept.
\<close>

definition idle :: "'w \<Rightarrow> 'w Runtime" where
  "idle w = \<lparr>world = w, process_env = [], random_source = (\<lambda>n. Finite (1 / 2)), random_calls = 0,
             stderr = [], sleeps = []\<rparr>"

text \<open>Two operations that count their calls in the world and always throw.\<close>

definition always_reset :: "nat Runtime \<Rightarrow> (Error + unit) \<times> nat Runtime" where
  "always_reset rt = (Inl \<lparr>message = ''read ECONNRESET''\<rparr>, rt\<lparr>world := Suc (world rt)\<rparr>)"

definition always_unauthorized :: "nat Runtime \<Rightarrow> (Error + unit) \<times> nat Runtime" where
  "always_unauthorized rt = (Inl \<lparr>message = ''Unauthorized''\<rparr>, rt\<lparr>world := Suc (world rt)\<rparr>)"

text \<open>
  An outside world that logs the clients that connected and listed tools. Every server
  offers one tool; the command \<^verbatim>\<open>missing-binary\<close> cannot be spawned, and the session of
  the command \<^verbatim>\<open>stuck\<close> fails to close. Only \<^verbatim>\<open>https\<close> URLs parse.
\<close>

definition example_tool :: Tool where
  "example_tool = \<lparr>Tool.name = ''read_file'', description = Some ''Read a file'',
     inputSchema = JObject [], annotations = None\<rparr>"

fun transport_command :: "Client \<Rightarrow> string option" where
  "transport_command (Client n v (StdioClientTransport c a e d)) = c"
| "transport_command (Client n v (StreamableHTTPClientTransport u h)) = None"

definition example_connect :: "Client \<Rightarrow> Client list \<Rightarrow> (Error + unit) \<times> Client list" where
  "example_connect c w =
     (if transport_command c = Some ''missing-binary''
      then (Inl \<lparr>message = ''spawn missing-binary ENOENT''\<rparr>, w)
      else (Inr (), w @ [c]))"

definition example_listTools :: "Client \<Rightarrow> Client list \<Rightarrow> (Error + Tool list) \<times> Client list" where
  "example_listTools c w = (Inr [example_tool], w @ [c])"

definition example_close :: "Client \<Rightarrow> Client list \<Rightarrow> (Error + unit) \<times> Client list" where
  "example_close c w =
     (if transport_command c = Some ''stuck''
      then (Inl \<lparr>message = ''close failed''\<rparr>, w)
      else (Inr (), w))"

definition example_X :: "Client list Externals" where
  "example_X =
     \<lparr>host = example_host,
      new_URL = (\<lambda>u. if startsWith u ''https://'' then Inr u else Inl \<lparr>message = ''Invalid URL''\<rparr>),
      client_connect = example_connect,
      client_listTools = example_listTools,
      client_close = example_close,
      serverNotFoundMessage = (\<lambda>serverName available. ''Server not found: '' @ serverName),
      VERSION = ''0.1.0''\<rparr>"

definition example_both :: ServerConfig where
  "example_both = \<lparr>command = Some ''node'', args = None, env = None, cwd = None,
     url = Some ''https://mcp.example.com'', headers = None, timeout = None\<rparr>"

definition example_neither :: ServerConfig where
  "example_neither = \<lparr>command = None, args = None, env = None, cwd = None,
     url = None, headers = None, timeout = None\<rparr>"

definition example_http :: ServerConfig where
  "example_http = \<lparr>command = None, args = None, env = None, cwd = None,
     url = Some ''https://mcp.example.com'', headers = None, timeout = None\<rparr>"

definition example_client :: Client where
  "example_client = Client ''mcp-cli'' ''0.1.0'' (StreamableHTTPClientTransport ''https://mcp.example.com'' None)"

definition example_stdio :: ServerConfig where
  "example_stdio = \<lparr>command = Some ''node'', args = Some [''./server.js''],
     env = Some [(''A'', ''2''), (''B'', ''3'')], cwd = None, url = None, headers = None, timeout = None\<rparr>"

definition example_missing :: ServerConfig where
  "example_missing = \<lparr>command = Some ''missing-binary'', args = None, env = None, cwd = None,
     url = None, headers = None, timeout = None\<rparr>"

definition example_stuck :: ServerConfig where
  "example_stuck = \<lparr>command = Some ''stuck'', args = None, env = None, cwd = None,
     url = None, headers = None, timeout = None\<rparr>"

definition example_node :: ServerConfig where
  "example_node = \<lparr>command = Some ''node'', args = None, env = None, cwd = None,
     url = None, headers = None, timeout = None\<rparr>"

section \<open>Facts about strings\<close>



section \<open>Facts about the retry executor\<close>

lemma withRetry_loop_retry:
  assumes "fn rt = (Inl error, rt1)" and "isTransientError H error" and "attempt < maxRetries config"
  shows "withRetry_loop H fn operationName config attempt lastError rt =
         withRetry_loop H fn operationName config (Suc attempt) (Some error)
           (retry_pause H operationName config attempt error rt1)"
  using assms by (subst withRetry_loop.simps) simp

lemma withRetry_loop_last:
  assumes "fn rt = (Inl error, rt1)" and "attempt = maxRetries config"
  shows "withRetry_loop H fn operationName config attempt lastError rt = (Inl (Some error), rt1)"
  using assms by (subst withRetry_loop.simps) simp

lemma withRetry_four_attempts:
  assumes always: "\<forall>rt. \<exists>error rt1. fn rt = (Inl error, rt1) \<and> isTransientError H error"
      and three: "maxRetries config = Suc (Suc (Suc 0))"
  shows "\<exists>e1 r1 e2 r2 e3 r3 e4 r4.
           fn rt = (Inl e1, r1)
         \<and> fn (retry_pause H operationName config 0 e1 r1) = (Inl e2, r2)
         \<and> fn (retry_pause H operationName config (Suc 0) e2 r2) = (Inl e3, r3)
         \<and> fn (retry_pause H operationName config (Suc (Suc 0)) e3 r3) = (Inl e4, r4)
         \<and> withRetry H fn operationName config rt = (Inl (Some e4), r4)"
proof -
  from always obtain e1 r1 where a1: "fn rt = (Inl e1, r1)" and t1: "isTransientError H e1"
    by blast
  from always obtain e2 r2
    where a2: "fn (retry_pause H operationName config 0 e1 r1) = (Inl e2, r2)"
      and t2: "isTransientError H e2"
    by blast
  from always obtain e3 r3
    where a3: "fn (retry_pause H operationName config (Suc 0) e2 r2) = (Inl e3, r3)"
      and t3: "isTransientError H e3"
    by blast
  from always obtain e4 r4
    where a4: "fn (retry_pause H operationName config (Suc (Suc 0)) e3 r3) = (Inl e4, r4)"
    by blast
  have "withRetry H fn operationName config rt =
        withRetry_loop H fn operationName config (Suc 0) (Some e1)
          (retry_pause H operationName config 0 e1 r1)"
    unfolding withRetry_def by (rule withRetry_loop_retry [where fn = fn, OF a1 t1]) (simp add: three)
  also have "\<dots> =
        withRetry_loop H fn operationName config (Suc (Suc 0)) (Some e2)
          (retry_pause H operationName config (Suc 0) e2 r2)"
    by (rule withRetry_loop_retry [where fn = fn, OF a2 t2]) (simp add: three)
  also have "\<dots> =
        withRetry_loop H fn operationName config (Suc (Suc (Suc 0))) (Some e3)
          (retry_pause H operationName config (Suc (Suc 0)) e3 r3)"
    by (rule withRetry_loop_retry [where fn = fn, OF a3 t3]) (simp add: three)
  also have "\<dots> = (Inl (Some e4), r4)"
    by (rule withRetry_loop_last [where fn = fn, OF a4]) (simp add: three)
  finally show ?thesis using a1 a2 a3 a4 by blast
qed

lemma withRetry_loop_fatal:
  assumes "fn rt = (Inl error, rt1)" and "attempt \<le> maxRetries config" and "\<not> isTransientError H error"
  shows "withRetry_loop H fn operationName config attempt lastError rt = (Inl (Some error), rt1)"
  using assms by (subst withRetry_loop.simps) simp

lemma withRetry_loop_success:
  assumes "fn rt = (Inr v, rt1)" and "attempt \<le> maxRetries config"
  shows "withRetry_loop H fn operationName config attempt lastError rt = (Inr v, rt1)"
  using assms by (subst withRetry_loop.simps) simp

lemma withRetry_loop_exceeded:
  assumes "maxRetries config < attempt"
  shows "withRetry_loop H fn operationName config attempt lastError rt = (Inl lastError, rt)"
  using assms by (subst withRetry_loop.simps) simp

lemma withRetry_loop_undefined:
  "withRetry_loop H fn operationName config attempt lastError rt = (Inl None, rt')
   \<Longrightarrow> lastError = None \<and> maxRetries config < attempt"
proof (induction "Suc (maxRetries config) - attempt" arbitrary: attempt lastError rt)
  case 0
  then have "maxRetries config < attempt" by simp
  with "0.prems" show ?case by (simp add: withRetry_loop_exceeded)
next
  case (Suc k)
  then have le: "attempt \<le> maxRetries config" by simp
  obtain r rt1 where f: "fn rt = (r, rt1)" by (cases "fn rt")
  show ?case
  proof (cases r)
    case (Inr v)
    with Suc.prems le f show ?thesis
      by (simp add: withRetry_loop_success [where fn = fn and rt = rt])
  next
    case (Inl e)
    show ?thesis
    proof (cases "attempt < maxRetries config \<and> isTransientError H e")
      case True
      with Suc.prems f Inl
      have "withRetry_loop H fn operationName config (Suc attempt) (Some e)
              (retry_pause H operationName config attempt e rt1) = (Inl None, rt')"
        by (simp add: withRetry_loop_retry [where fn = fn and rt = rt])
      moreover have "k = Suc (maxRetries config) - Suc attempt" using Suc.hyps(2) by simp
      ultimately have "Some e = None \<and> maxRetries config < Suc attempt"
        by (rule Suc.hyps(1) [rotated])
      then show ?thesis by simp
    next
      case False
      then consider "attempt = maxRetries config" | "\<not> isTransientError H e" using le by force
      then have "withRetry_loop H fn operationName config attempt lastError rt = (Inl (Some e), rt1)"
        using f Inl le
        by cases (simp_all add: withRetry_loop_last [where fn = fn and rt = rt]
                    withRetry_loop_fatal [where fn = fn and rt = rt])
      with Suc.prems show ?thesis by simp
    qed
  qed
qed

lemma withRetry_not_undefined: "withRetry H fn operationName config rt \<noteq> (Inl None, rt')"
  unfolding withRetry_def using withRetry_loop_undefined [of H fn operationName config 0 None rt rt']
  by auto

lemma retry_pause_quiet:
  "process_env (retry_pause H operationName config attempt e rt) = process_env rt
   \<and> (\<not> MCP_DEBUG rt \<longrightarrow> stderr (retry_pause H operationName config attempt e rt) = stderr rt)"
  by (simp add: retry_pause_def Math_random_def console_error_def sleep_def MCP_DEBUG_def Let_def)

lemma MCP_DEBUG_cong: "process_env rt' = process_env rt \<Longrightarrow> MCP_DEBUG rt' = MCP_DEBUG rt"
  by (simp add: MCP_DEBUG_def)

lemma withRetry_loop_quiet:
  assumes q: "quiet fn"
  shows "process_env (snd (withRetry_loop H fn operationName config attempt lastError rt)) = process_env rt
       \<and> (\<not> MCP_DEBUG rt \<longrightarrow> stderr (snd (withRetry_loop H fn operationName config attempt lastError rt)) = stderr rt)"
proof (induction "Suc (maxRetries config) - attempt" arbitrary: attempt lastError rt)
  case 0
  then have "maxRetries config < attempt" by simp
  then show ?case by (simp add: withRetry_loop_exceeded)
next
  case (Suc k)
  then have le: "attempt \<le> maxRetries config" by simp
  obtain r rt1 where f: "fn rt = (r, rt1)" by (cases "fn rt")
  from q f have q1: "stderr rt1 = stderr rt" "process_env rt1 = process_env rt"
    unfolding quiet_def by (metis snd_conv)+
  show ?case
  proof (cases r)
    case (Inr v)
    with le f q1 show ?thesis
      by (simp add: withRetry_loop_success [where fn = fn and rt = rt])
  next
    case (Inl e)
    show ?thesis
    proof (cases "attempt < maxRetries config \<and> isTransientError H e")
      case True
      let ?rt2 = "retry_pause H operationName config attempt e rt1"
      have eq: "withRetry_loop H fn operationName config attempt lastError rt =
                withRetry_loop H fn operationName config (Suc attempt) (Some e) ?rt2"
        using True f Inl by (simp add: withRetry_loop_retry [where fn = fn and rt = rt])
      have k: "k = Suc (maxRetries config) - Suc attempt" using Suc.hyps(2) by simp
      have p: "process_env ?rt2 = process_env rt"
        using retry_pause_quiet [of H operationName config attempt e rt1] q1 by simp
      have d1: "MCP_DEBUG rt1 = MCP_DEBUG rt" using q1 by (rule_tac MCP_DEBUG_cong) simp
      have d2: "MCP_DEBUG ?rt2 = MCP_DEBUG rt" using p by (rule MCP_DEBUG_cong)
      have s: "\<not> MCP_DEBUG rt \<longrightarrow> stderr ?rt2 = stderr rt"
        using retry_pause_quiet [of H operationName config attempt e rt1] q1 d1 by simp
      from Suc.hyps(1) [OF k, of "Some e" ?rt2] p d2 s eq show ?thesis by simp
    next
      case False
      then consider "attempt = maxRetries config" | "\<not> isTransientError H e" using le by force
      then have "withRetry_loop H fn operationName config attempt lastError rt = (Inl (Some e), rt1)"
        using f Inl le
        by cases (simp_all add: withRetry_loop_last [where fn = fn and rt = rt]
                    withRetry_loop_fatal [where fn = fn and rt = rt])
      with q1 show ?thesis by simp
    qed
  qed
qed

lemma on_world_quiet: "quiet (on_world f)"
  by (simp add: quiet_def on_world_def split: prod.splits)

lemma connectToServer_fn_quiet: "quiet (connectToServer_fn X config)"
proof -
  have "\<And>c. quiet (on_world (client_connect X c))" by (rule on_world_quiet)
  then show ?thesis
    unfolding quiet_def connectToServer_fn_def
    by (auto split: sum.splits prod.splits) (metis snd_conv)+
qed

lemma listTools_fn_quiet: "quiet (listTools_fn X c)"
proof -
  have "quiet (on_world (client_listTools X c))" by (rule on_world_quiet)
  then show ?thesis
    unfolding quiet_def listTools_fn_def
    by (auto split: sum.splits prod.splits) (metis snd_conv)+
qed

lemma connectToServer_quiet:
  "process_env (snd (connectToServer X serverName config rt)) = process_env rt
   \<and> (\<not> MCP_DEBUG rt \<longrightarrow> stderr (snd (connectToServer X serverName config rt)) = stderr rt)"
  unfolding connectToServer_def withRetry_def
  by (rule withRetry_loop_quiet) (rule connectToServer_fn_quiet)

lemma listTools_quiet:
  "process_env (snd (listTools X c rt)) = process_env rt
   \<and> (\<not> MCP_DEBUG rt \<longrightarrow> stderr (snd (listTools X c rt)) = stderr rt)"
  unfolding listTools_def withRetry_def
  by (rule withRetry_loop_quiet) (rule listTools_fn_quiet)

lemma close_quiet:
  "process_env (snd (close X conn rt)) = process_env rt \<and> stderr (snd (close X conn rt)) = stderr rt"
  using on_world_quiet [of "client_close X (client conn)"] by (simp add: close_def quiet_def)

section \<open>Facts about the transport environment\<close>

lemma map_of_fold_update:
  "distinct (map fst xs) \<Longrightarrow>
   map_of (fold (\<lambda>(key, value) acc. AList.update key value acc) xs acc) k =
   (case map_of xs k of Some v \<Rightarrow> Some v | None \<Rightarrow> map_of acc k)"
proof (induction xs arbitrary: acc)
  case Nil
  then show ?case by simp
next
  case (Cons x xs)
  obtain a b where x: "x = (a, b)" by (cases x)
  from Cons.prems x have nin: "a \<notin> fst ` set xs" and d: "distinct (map fst xs)" by auto
  from nin have none: "map_of xs a = None" by (simp add: map_of_eq_None_iff)
  show ?case
    using Cons.IH [OF d, of "AList.update a b acc"] x none
    by (auto simp: update_conv' split: option.splits)
qed

lemma map_of_Object_assign:
  "distinct (map fst source) \<Longrightarrow>
   map_of (Object_assign target source) k =
   (case map_of source k of Some v \<Rightarrow> Some v | None \<Rightarrow> map_of target k)"
  unfolding Object_assign_def by (rule map_of_fold_update)

lemma map_of_fold_defined:
  "distinct (map fst penv) \<Longrightarrow>
   map_of (fold (\<lambda>(key, value) mergedEnv.
             case value of Some v \<Rightarrow> AList.update key v mergedEnv | None \<Rightarrow> mergedEnv) penv acc) k =
   (case map_of penv k of Some (Some v) \<Rightarrow> Some v | _ \<Rightarrow> map_of acc k)"
proof (induction penv arbitrary: acc)
  case Nil
  then show ?case by simp
next
  case (Cons x xs)
  obtain a b where x: "x = (a, b)" by (cases x)
  from Cons.prems x have nin: "a \<notin> fst ` set xs" and d: "distinct (map fst xs)" by auto
  from nin have none: "map_of xs a = None" by (simp add: map_of_eq_None_iff)
  show ?case
  proof (cases b)
    case None
    then show ?thesis using Cons.IH [OF d, of acc] x none by (auto split: option.splits)
  next
    case (Some v)
    then show ?thesis
      using Cons.IH [OF d, of "AList.update a v acc"] x none
      by (auto simp: update_conv' split: option.splits)
  qed
qed

lemma map_of_defined_env:
  "distinct (map fst penv) \<Longrightarrow>
   map_of (defined_env penv) k = (case map_of penv k of Some (Some v) \<Rightarrow> Some v | _ \<Rightarrow> None)"
  unfolding defined_env_def by (simp add: map_of_fold_defined split: option.splits)

section \<open>Facts about sessions and the commands\<close>

lemma connectToServer_throws_error:
  "connectToServer X serverName config rt = (Inl e, rt1) \<Longrightarrow> \<exists>err. e = Some err"
  using withRetry_not_undefined [of "host X" "connectToServer_fn X config" "''connect to '' @ serverName" DEFAULT_RETRY_CONFIG rt rt1]
  by (cases e) (simp_all add: connectToServer_def)

lemma listTools_throws_error:
  "listTools X c rt = (Inl e, rt1) \<Longrightarrow> \<exists>err. e = Some err"
  using withRetry_not_undefined [of "host X" "listTools_fn X c" "''list tools''" DEFAULT_RETRY_CONFIG rt rt1]
  by (cases e) (simp_all add: listTools_def)

lemma grepCommand_try_failed:
  assumes cfg: "getServerConfig X config serverName = Inr serverConfig"
      and fails: "(\<exists>e rt1. connectToServer X serverName serverConfig rt = (Inl e, rt1))
                \<or> (\<exists>conn rt1 e rt2. connectToServer X serverName serverConfig rt = (Inr conn, rt1)
                                    \<and> listTools X (client conn) rt1 = (Inl e, rt2))"
  shows "\<exists>err rt1. grepCommand_try X test config serverName results rt = (Inl (Some err), results, rt1)
            \<and> process_env rt1 = process_env rt
            \<and> (\<not> MCP_DEBUG rt \<longrightarrow> stderr rt1 = stderr rt)"
  using fails
proof (elim disjE exE conjE)
  fix e rt1
  assume c: "connectToServer X serverName serverConfig rt = (Inl e, rt1)"
  then obtain err where e: "e = Some err" by (auto dest: connectToServer_throws_error)
  from connectToServer_quiet [of X serverName serverConfig rt] c
  have "process_env rt1 = process_env rt" "\<not> MCP_DEBUG rt \<longrightarrow> stderr rt1 = stderr rt" by simp_all
  then show ?thesis using cfg c e by (simp add: grepCommand_try_def)
next
  fix conn rt1 e rt2
  assume c: "connectToServer X serverName serverConfig rt = (Inr conn, rt1)"
     and l: "listTools X (client conn) rt1 = (Inl e, rt2)"
  from l obtain err where e: "e = Some err" by (auto dest: listTools_throws_error)
  from connectToServer_quiet [of X serverName serverConfig rt] c
  have q1: "process_env rt1 = process_env rt" "\<not> MCP_DEBUG rt \<longrightarrow> stderr rt1 = stderr rt" by simp_all
  then have d1: "MCP_DEBUG rt1 = MCP_DEBUG rt" by (simp add: MCP_DEBUG_def)
  from listTools_quiet [of X "client conn" rt1] l q1 d1
  have q2: "process_env rt2 = process_env rt" "\<not> MCP_DEBUG rt \<longrightarrow> stderr rt2 = stderr rt" by simp_all
  obtain r rt3 where cl: "close X conn rt2 = (r, rt3)" by (cases "close X conn rt2")
  from close_quiet [of X conn rt2] cl q2
  have q3: "process_env rt3 = process_env rt" "\<not> MCP_DEBUG rt \<longrightarrow> stderr rt3 = stderr rt" by simp_all
  show ?thesis using cfg c l e cl q3 by (cases r) (simp_all add: grepCommand_try_def)
qed

lemma find_SomeD: "find P xs = Some x \<Longrightarrow> x \<in> set xs \<and> P x"
  by (induction xs) (auto split: if_splits)

lemma example_fatal:
  "\<not> isTransientError example_host \<lparr>message = ''spawn missing-binary ENOENT''\<rparr>"
  "\<not> isTransientError example_host \<lparr>message = ''close failed''\<rparr>"
  by code_simp+

lemmas example_simps =
  example_X_def example_connect_def example_listTools_def example_close_def idle_def
  connectToServer_def listTools_def close_def withRetry_def withRetry_loop.simps
  connectToServer_fn_def connectToServer_transport_def listTools_fn_def on_world_def
  isHttpServer_def createHttpTransport_def createStdioTransport_def defined_env_def
  DEFAULT_RETRY_CONFIG_def getServerConfig_def example_fatal

lemma close_succeeds:
  assumes "\<forall>c w. \<exists>w'. client_close X c w = (Inr (), w')"
  shows "\<exists>rt'. close X conn rt = (Inr (), rt')"
proof -
  from assms obtain w' where "client_close X (client conn) (world rt) = (Inr (), w')" by blast
  then show ?thesis by (simp add: close_def on_world_def)
qed

lemma listCommand_iteration_entry:
  assumes close_ok: "\<forall>c w. \<exists>w'. client_close X c w = (Inr (), w')"
  shows "\<exists>entry rt'. listCommand_iteration X config serverName servers rt = (Inr (servers @ [entry]), rt')
            \<and> ServerWithTools.name entry = serverName"
proof -
  note cl = close_succeeds [OF close_ok]
  show ?thesis
  proof (cases "getServerConfig X config serverName")
    case (Inl e)
    then show ?thesis
      by (simp add: listCommand_iteration_def listCommand_try_def error_entry_def)
  next
    case (Inr serverConfig)
    obtain r rt1 where c: "connectToServer X serverName serverConfig rt = (r, rt1)"
      by (cases "connectToServer X serverName serverConfig rt")
    show ?thesis
    proof (cases r)
      case (Inl e)
      with c obtain err where "e = Some err" by (auto dest: connectToServer_throws_error)
      with Inr c Inl show ?thesis
        by (simp add: listCommand_iteration_def listCommand_try_def error_entry_def)
    next
      case conn: (Inr conn)
      obtain r2 rt2 where l: "listTools X (client conn) rt1 = (r2, rt2)"
        by (cases "listTools X (client conn) rt1")
      from cl obtain rt3 where k: "close X conn rt2 = (Inr (), rt3)" by blast
      show ?thesis
      proof (cases r2)
        case (Inl e)
        with l obtain err where "e = Some err" by (auto dest: listTools_throws_error)
        with Inr c conn l Inl k show ?thesis
          by (simp add: listCommand_iteration_def listCommand_try_def error_entry_def)
      next
        case found: (Inr found)
        with Inr c conn l k show ?thesis
          by (simp add: listCommand_iteration_def listCommand_try_def)
      qed
    qed
  qed
qed

lemma listCommand_loop_names:
  assumes close_ok: "\<forall>c w. \<exists>w'. client_close X c w = (Inr (), w')"
  shows "\<exists>servers' rt'. listCommand_loop X config names servers rt = (Inr servers', rt')
            \<and> map ServerWithTools.name servers' = map ServerWithTools.name servers @ names"
proof (induction names arbitrary: servers rt)
  case Nil
  then show ?case by simp
next
  case (Cons n names)
  from listCommand_iteration_entry [OF close_ok, of config n servers rt]
  obtain entry rt1 where i: "listCommand_iteration X config n servers rt = (Inr (servers @ [entry]), rt1)"
    and e: "ServerWithTools.name entry = n" by blast
  from Cons.IH [of "servers @ [entry]" rt1]
  obtain servers' rt' where "listCommand_loop X config names (servers @ [entry]) rt1 = (Inr servers', rt')"
    and "map ServerWithTools.name servers' = map ServerWithTools.name (servers @ [entry]) @ names"
    by blast
  with i e show ?case by simp
qed

text \<open>
  When no session fails to close, the list command records one entry for each server
  name, in the order of the names.
\<close>

lemma listCommand_servers_names:
  assumes "\<forall>c w. \<exists>w'. client_close X c w = (Inr (), w')"
  shows "\<exists>servers rt'. listCommand_servers X config rt = (Inr servers, rt')
            \<and> map ServerWithTools.name servers = listServerNames config"
  using listCommand_loop_names [OF assms, of config "listServerNames config" "[]" rt]
  by (simp add: listCommand_servers_def)

section \<open>Claims\<close>



text \<open>
  C1. With \<open>maxRetries = 3\<close>, an operation that throws a transient error at every call is
  called exactly four times: after each of the first three failures the executor pauses
  and calls again, and the error thrown by the fourth call is what \<^verbatim>\<open>withRetry\<close> throws,
  itself and not a wrapper, in the state that the fourth call leaves.
\<close>

theorem withRetry_transient_exhausts:
  assumes "\<forall>rt. \<exists>error rt1. fn rt = (Inl error, rt1) \<and> isTransientError H error"
      and "maxRetries config = 3"
  shows "\<exists>e1 r1 e2 r2 e3 r3 e4 r4.
           fn rt = (Inl e1, r1)
         \<and> fn (retry_pause H operationName config 0 e1 r1) = (Inl e2, r2)
         \<and> fn (retry_pause H operationName config 1 e2 r2) = (Inl e3, r3)
         \<and> fn (retry_pause H operationName config 2 e3 r3) = (Inl e4, r4)
         \<and> withRetry H fn operationName config rt = (Inl (Some e4), r4)"
  using withRetry_four_attempts [where fn = fn and H = H and config = config and rt = rt
      and operationName = operationName] assms
  by (simp add: eval_nat_numeral)

theorem withRetry_transient_exhausts_witness: "(\<forall>rt. \<exists>error rt1. always_reset rt = (Inl error, rt1) \<and> isTransientError example_host error)
   \<and> maxRetries DEFAULT_RETRY_CONFIG = 3
   \<and> fst (withRetry example_host always_reset ''list tools'' DEFAULT_RETRY_CONFIG (idle 0)) = Inl (Some \<lparr>message = ''read ECONNRESET''\<rparr>)
   \<and> world (snd (withRetry example_host always_reset ''list tools'' DEFAULT_RETRY_CONFIG (idle 0))) = 4"
proof -
  have tr: "isTransientError example_host \<lparr>message = ''read ECONNRESET''\<rparr>"
    by code_simp
  have h1: "\<forall>rt. \<exists>error rt1. always_reset rt = (Inl error, rt1) \<and> isTransientError example_host error"
    using tr by (simp add: always_reset_def)
  have h2: "maxRetries DEFAULT_RETRY_CONFIG = 3"
    by (simp add: DEFAULT_RETRY_CONFIG_def)
  from withRetry_transient_exhausts [OF h1 h2, of "idle 0" "''list tools''"]
  obtain e1 r1 e2 r2 e3 r3 e4 r4 where
        c1: "always_reset (idle 0) = (Inl e1, r1)"
    and c2: "always_reset (retry_pause example_host ''list tools'' DEFAULT_RETRY_CONFIG 0 e1 r1) = (Inl e2, r2)"
    and c3: "always_reset (retry_pause example_host ''list tools'' DEFAULT_RETRY_CONFIG 1 e2 r2) = (Inl e3, r3)"
    and c4: "always_reset (retry_pause example_host ''list tools'' DEFAULT_RETRY_CONFIG 2 e3 r3) = (Inl e4, r4)"
    and res: "withRetry example_host always_reset ''list tools'' DEFAULT_RETRY_CONFIG (idle 0) = (Inl (Some e4), r4)"
    by blast
  have pause: "\<And>a e r. world (retry_pause example_host ''list tools'' DEFAULT_RETRY_CONFIG a e r) = world r"
    by (simp add: retry_pause_def Math_random_def console_error_def sleep_def Let_def)
  from c1 have w1: "world r1 = 1" by (auto simp: always_reset_def idle_def)
  from c2 w1 have w2: "world r2 = 2" by (auto simp: always_reset_def pause)
  from c3 w2 have w3: "world r3 = 3" by (auto simp: always_reset_def pause)
  from c4 w3 have w4: "world r4 = 4" by (auto simp: always_reset_def pause)
  from c4 have e4: "e4 = \<lparr>message = ''read ECONNRESET''\<rparr>" by (auto simp: always_reset_def)
  show ?thesis using h1 h2 res w4 e4 by simp
qed


text \<open>
  C8. When the first call of the operation throws an error that the classifier does not
  mark transient, \<^verbatim>\<open>withRetry\<close> throws that error in the state the call leaves: the
  operation has run once, nothing was drawn, written or slept, and it is not called again.
\<close>

theorem withRetry_fatal_first:
  assumes "fn rt = (Inl error, rt1)" and "\<not> isTransientError H error"
  shows "withRetry H fn operationName config rt = (Inl (Some error), rt1)"
  using assms by (simp add: withRetry_def withRetry_loop.simps)

theorem withRetry_fatal_first_witness:
  "always_unauthorized (idle 0) = (Inl \<lparr>message = ''Unauthorized''\<rparr>, (idle 0)\<lparr>world := Suc 0\<rparr>)
   \<and> \<not> isTransientError example_host \<lparr>message = ''Unauthorized''\<rparr>
   \<and> fst (withRetry example_host always_unauthorized ''call tool x'' DEFAULT_RETRY_CONFIG (idle 0))
       = Inl (Some \<lparr>message = ''Unauthorized''\<rparr>)
   \<and> world (snd (withRetry example_host always_unauthorized ''call tool x'' DEFAULT_RETRY_CONFIG (idle 0))) = 1
   \<and> sleeps (snd (withRetry example_host always_unauthorized ''call tool x'' DEFAULT_RETRY_CONFIG (idle 0))) = []"
proof -
  have a: "always_unauthorized (idle 0) = (Inl \<lparr>message = ''Unauthorized''\<rparr>, (idle 0)\<lparr>world := Suc 0\<rparr>)"
    by (simp add: always_unauthorized_def idle_def)
  have f: "\<not> isTransientError example_host \<lparr>message = ''Unauthorized''\<rparr>"
    by code_simp
  show ?thesis
    using a f withRetry_fatal_first [where fn = always_unauthorized, OF a f, of "''call tool x''" DEFAULT_RETRY_CONFIG]
    by (simp add: idle_def)
qed

text \<open>
  C6. The environment given to the stdio transport is, key by key, the entry of the
  descriptor's \<^verbatim>\<open>env\<close> where it has one, and otherwise the ambient entry when its value
  is defined. The keys of an object are distinct. Ambient \<open>{A: "1"}\<close> with descriptor
  \<open>{A: "2", B: "3"}\<close> gives \<open>{A: "2", B: "3"}\<close>.
\<close>

theorem createStdioTransport_env:
  assumes "distinct (map fst (process_env rt))"
      and "distinct (map fst (case env config of Some e \<Rightarrow> e | None \<Rightarrow> []))"
  shows "map_of (transport_env (createStdioTransport config rt)) key =
         effective_env (process_env rt) (env config) key"
proof (cases "env config")
  case None
  then show ?thesis
    using assms(1)
    by (simp add: createStdioTransport_def effective_env_def map_of_defined_env)
next
  case (Some e)
  with assms(2) have "distinct (map fst e)" by simp
  then show ?thesis
    using assms(1) Some
    by (simp add: createStdioTransport_def effective_env_def map_of_defined_env map_of_Object_assign
          split: option.splits)
qed

theorem createStdioTransport_env_witness: "distinct (map fst (process_env ((idle ())\<lparr>process_env := [(''A'', Some ''1'')]\<rparr>)))
  \<and> distinct (map fst (case env example_stdio of Some e \<Rightarrow> e | None \<Rightarrow> []))
  \<and> transport_env (createStdioTransport example_stdio ((idle ())\<lparr>process_env := [(''A'', Some ''1'')]\<rparr>))
      = [(''A'', ''2''), (''B'', ''3'')]
  \<and> map_of (transport_env (createStdioTransport example_stdio ((idle ())\<lparr>process_env := [(''A'', Some ''1'')]\<rparr>))) ''A''
      = Some ''2''
  \<and> effective_env [(''A'', Some ''1'')] (Some [(''A'', ''2''), (''B'', ''3'')]) ''A'' = Some ''2''"
proof -
  have h1: "distinct (map fst (process_env ((idle ())\<lparr>process_env := [(''A'', Some ''1'')]\<rparr>)))"
    by (simp add: idle_def)
  have h2: "distinct (map fst (case env example_stdio of Some e \<Rightarrow> e | None \<Rightarrow> []))"
    by (simp add: example_stdio_def)
  have ev: "transport_env (createStdioTransport example_stdio ((idle ())\<lparr>process_env := [(''A'', Some ''1'')]\<rparr>))
      = [(''A'', ''2''), (''B'', ''3'')]"
    by (simp add: createStdioTransport_def example_stdio_def idle_def defined_env_def Object_assign_def)
  show ?thesis
    using h1 h2 ev createStdioTransport_env [OF h1 h2, of "''A''"]
    by (simp add: example_stdio_def idle_def)
qed

text \<open>
  C9. The transport is chosen by the presence of \<^verbatim>\<open>url\<close> alone. With a \<^verbatim>\<open>url\<close> the
  HTTP transport is built, whatever the \<^verbatim>\<open>command\<close> field holds, and a transport that
  results is an HTTP transport; without a \<^verbatim>\<open>url\<close> the stdio transport is built with
  the descriptor's command, present or not.
\<close>

theorem connectToServer_transport_by_url:
  "(url config \<noteq> None \<longrightarrow>
      isHttpServer config
    \<and> connectToServer_transport X config rt = createHttpTransport X config
    \<and> connectToServer_transport X (config\<lparr>command := c\<rparr>) rt = connectToServer_transport X config rt
    \<and> (\<forall>t. connectToServer_transport X config rt = Inr t \<longrightarrow> (\<exists>u h. t = StreamableHTTPClientTransport u h)))
 \<and> (url config = None \<longrightarrow>
      \<not> isHttpServer config
    \<and> connectToServer_transport X config rt = Inr (createStdioTransport config rt)
    \<and> (\<exists>e. createStdioTransport config rt = StdioClientTransport (command config) (args config) e (cwd config)))"
  by (auto simp: connectToServer_transport_def isHttpServer_def createHttpTransport_def
        createStdioTransport_def Let_def split: sum.splits)

theorem connectToServer_transport_by_url_witness: "url example_both \<noteq> None \<and> command example_both \<noteq> None
  \<and> connectToServer_transport example_X example_both (idle [])
      = Inr (StreamableHTTPClientTransport ''https://mcp.example.com'' None)
  \<and> url example_neither = None
  \<and> connectToServer_transport example_X example_neither (idle [])
      = Inr (StdioClientTransport None None [] None)"
  using connectToServer_transport_by_url [of example_both example_X "idle []"]
        connectToServer_transport_by_url [of example_neither example_X "idle []"]
  by (simp add: example_both_def example_neither_def example_X_def createHttpTransport_def
        createStdioTransport_def idle_def defined_env_def)

text \<open>
  C4, as the code has it. No validation stands before the construction of the
  transport. From a descriptor with both a \<^verbatim>\<open>command\<close> and a \<^verbatim>\<open>url\<close> the HTTP transport
  is built, unless the URL itself does not parse; from a descriptor with neither a stdio
  transport is built with no command.
\<close>

theorem descriptor_not_validated:
  "(command config \<noteq> None \<and> url config = Some u \<longrightarrow>
      connectToServer_transport X config rt =
        (case new_URL X u of
           Inl e \<Rightarrow> Inl e
         | Inr parsed \<Rightarrow> Inr (StreamableHTTPClientTransport parsed (headers config))))
 \<and> (command config = None \<and> url config = None \<longrightarrow>
      (\<exists>e. connectToServer_transport X config rt
             = Inr (StdioClientTransport None (args config) e (cwd config))))"
  by (auto simp: connectToServer_transport_def isHttpServer_def createHttpTransport_def
        createStdioTransport_def Let_def)

theorem descriptor_not_validated_witness:
  "command example_both \<noteq> None \<and> url example_both = Some ''https://mcp.example.com''
   \<and> connectToServer_transport example_X example_both (idle [])
       = Inr (StreamableHTTPClientTransport ''https://mcp.example.com'' None)
   \<and> command example_neither = None \<and> url example_neither = None
   \<and> (\<exists>e. connectToServer_transport example_X example_neither (idle [])
            = Inr (StdioClientTransport None None e None))"
  using descriptor_not_validated [of example_both "''https://mcp.example.com''" example_X "idle []"]
        descriptor_not_validated [of example_neither "[]" example_X "idle []"]
  by (simp add: example_both_def example_neither_def example_X_def)

text \<open>
  C4 as stated fails: a descriptor with both fields is connected over HTTP, and from a
  descriptor with neither field a stdio transport is built.
\<close>

theorem descriptor_not_validated_counterexample:
  "command example_both \<noteq> None \<and> url example_both \<noteq> None
   \<and> connectToServer_transport example_X example_both (idle [])
       = Inr (StreamableHTTPClientTransport ''https://mcp.example.com'' None)
   \<and> fst (connectToServer example_X ''both'' example_both (idle []))
       = Inr \<lparr>client = Client ''mcp-cli'' ''0.1.0'' (StreamableHTTPClientTransport ''https://mcp.example.com'' None)\<rparr>
   \<and> command example_neither = None \<and> url example_neither = None
   \<and> connectToServer_transport example_X example_neither (idle [])
       = Inr (StdioClientTransport None None [] None)"
  by (simp add: example_both_def example_neither_def example_X_def createHttpTransport_def
        createStdioTransport_def idle_def defined_env_def connectToServer_def withRetry_def
        withRetry_loop.simps connectToServer_fn_def connectToServer_transport_def isHttpServer_def
        on_world_def example_connect_def DEFAULT_RETRY_CONFIG_def)

text \<open>
  C7. When \<^verbatim>\<open>listTools\<close> returns the tools of the session, \<^verbatim>\<open>getTool\<close> returns in the
  state that this one call of \<^verbatim>\<open>listTools\<close> leaves, so with no further round trip: a
  tool of the list whose name is the requested name if there is one, and nothing exactly
  when no tool of the list has that name.
\<close>

theorem getTool_by_exact_name:
  assumes "listTools X c rt = (Inr found, rt1)"
  shows "\<exists>r. getTool X c toolName rt = (Inr r, rt1)
       \<and> (r = None \<longleftrightarrow> (\<forall>t \<in> set found. ToolInfo.name t \<noteq> toolName))
       \<and> (\<forall>t. r = Some t \<longrightarrow> t \<in> set found \<and> ToolInfo.name t = toolName)"
proof -
  let ?r = "find (\<lambda>t. ToolInfo.name t = toolName) found"
  have a: "getTool X c toolName rt = (Inr ?r, rt1)"
    using assms by (simp add: getTool_def)
  have b: "?r = None \<longleftrightarrow> (\<forall>t \<in> set found. ToolInfo.name t \<noteq> toolName)"
    by (auto simp: find_None_iff)
  have c: "\<forall>t. ?r = Some t \<longrightarrow> t \<in> set found \<and> ToolInfo.name t = toolName"
    by (auto dest: find_SomeD)
  show ?thesis
  proof (rule exI [of _ ?r], intro conjI)
    show "getTool X c toolName rt = (Inr ?r, rt1)" by (rule a)
    show "?r = None \<longleftrightarrow> (\<forall>t \<in> set found. ToolInfo.name t \<noteq> toolName)" by (rule b)
    show "\<forall>t. ?r = Some t \<longrightarrow> t \<in> set found \<and> ToolInfo.name t = toolName" by (rule c)
  qed
qed

theorem getTool_by_exact_name_witness:
  "listTools example_X example_client (idle []) = (Inr [toToolInfo example_tool], (idle [])\<lparr>world := [example_client]\<rparr>)
   \<and> fst (getTool example_X example_client ''read_file'' (idle [])) = Inr (Some (toToolInfo example_tool))
   \<and> fst (getTool example_X example_client ''write_file'' (idle [])) = Inr None
   \<and> world (snd (getTool example_X example_client ''read_file'' (idle []))) = [example_client]"
proof -
  have l: "listTools example_X example_client (idle [])
           = (Inr [toToolInfo example_tool], (idle [])\<lparr>world := [example_client]\<rparr>)"
    by (simp add: listTools_def withRetry_def withRetry_loop.simps listTools_fn_def on_world_def
          example_X_def example_listTools_def idle_def DEFAULT_RETRY_CONFIG_def)
  have n: "ToolInfo.name (toToolInfo example_tool) = ''read_file''"
    by (simp add: toToolInfo_def example_tool_def)
  from getTool_by_exact_name [OF l, of "''read_file''"]
  obtain r where g: "getTool example_X example_client ''read_file'' (idle [])
                     = (Inr r, (idle [])\<lparr>world := [example_client]\<rparr>)"
    and rn: "r = None \<longleftrightarrow> (\<forall>t \<in> set [toToolInfo example_tool]. ToolInfo.name t \<noteq> ''read_file'')"
    and rs: "\<forall>t. r = Some t \<longrightarrow> t \<in> set [toToolInfo example_tool] \<and> ToolInfo.name t = ''read_file''"
    by blast
  from rn n have "r \<noteq> None" by simp
  then obtain t where "r = Some t" by blast
  with rs have r: "r = Some (toToolInfo example_tool)" by simp
  from getTool_by_exact_name [OF l, of "''write_file''"]
  obtain r' where g': "getTool example_X example_client ''write_file'' (idle [])
                     = (Inr r', (idle [])\<lparr>world := [example_client]\<rparr>)"
    and rn': "r' = None \<longleftrightarrow> (\<forall>t \<in> set [toToolInfo example_tool]. ToolInfo.name t \<noteq> ''write_file'')"
    by blast
  from rn' n have r': "r' = None" by simp
  show ?thesis using l g r g' r' by simp
qed

text \<open>
  C10. In the grep command, a configured server whose connection fails, or whose tool
  listing fails, adds nothing to the results; the loop goes on with the servers that
  follow; and when \<^verbatim>\<open>MCP_DEBUG\<close> is not set nothing is written to stderr.
\<close>

theorem grepCommand_skips_failed_server:
  assumes cfg: "getServerConfig X config serverName = Inr serverConfig"
      and fails: "(\<exists>e rt1. connectToServer X serverName serverConfig rt = (Inl e, rt1))
                \<or> (\<exists>conn rt1 e rt2. connectToServer X serverName serverConfig rt = (Inr conn, rt1)
                                    \<and> listTools X (client conn) rt1 = (Inl e, rt2))"
  shows "\<exists>rt'. grepCommand_iteration X test config serverName results rt = (Inr results, rt')
            \<and> grepCommand_loop X test config (serverName # rest) results rt
                = grepCommand_loop X test config rest results rt'
            \<and> (\<not> MCP_DEBUG rt \<longrightarrow> stderr rt' = stderr rt)"
proof -
  from grepCommand_try_failed [OF cfg fails, of test results]
  obtain err rt1 where t: "grepCommand_try X test config serverName results rt = (Inl (Some err), results, rt1)"
    and p: "process_env rt1 = process_env rt"
    and s: "\<not> MCP_DEBUG rt \<longrightarrow> stderr rt1 = stderr rt"
    by blast
  from p have d: "MCP_DEBUG rt1 = MCP_DEBUG rt" by (simp add: MCP_DEBUG_def)
  let ?rt' = "if MCP_DEBUG rt1
              then console_error (''Warning: Failed to connect to '' @ serverName @ '': '' @ message err) rt1
              else rt1"
  have i: "grepCommand_iteration X test config serverName results rt = (Inr results, ?rt')"
    using t by (simp add: grepCommand_iteration_def)
  then have l: "grepCommand_loop X test config (serverName # rest) results rt
                = grepCommand_loop X test config rest results ?rt'"
    by simp
  have "\<not> MCP_DEBUG rt \<longrightarrow> stderr ?rt' = stderr rt" using d s by simp
  with i l show ?thesis by blast
qed

theorem grepCommand_skips_failed_server_witness:
  "getServerConfig example_X \<lparr>mcpServers = [(''down'', example_missing), (''up'', example_node)]\<rparr> ''down''
     = Inr example_missing
   \<and> fst (connectToServer example_X ''down'' example_missing (idle []))
     = Inl (Some \<lparr>message = ''spawn missing-binary ENOENT''\<rparr>)
   \<and> fst (grepCommand_iteration example_X (\<lambda>s. s = ''read_file'')
            \<lparr>mcpServers = [(''down'', example_missing), (''up'', example_node)]\<rparr> ''down'' [] (idle []))
     = Inr []
   \<and> fst (grepCommand_results example_X (\<lambda>s. s = ''read_file'')
            \<lparr>mcpServers = [(''down'', example_missing), (''up'', example_node)]\<rparr> (idle []))
     = Inr [\<lparr>server = ''up'', tool = toToolInfo example_tool\<rparr>]
   \<and> stderr (snd (grepCommand_results example_X (\<lambda>s. s = ''read_file'')
            \<lparr>mcpServers = [(''down'', example_missing), (''up'', example_node)]\<rparr> (idle []))) = []"
proof -
  let ?config = "\<lparr>mcpServers = [(''down'', example_missing), (''up'', example_node)]\<rparr>"
  let ?test = "\<lambda>s. s = ''read_file''"
  have cfg: "getServerConfig example_X ?config ''down'' = Inr example_missing"
    by (simp add: getServerConfig_def)
  have c: "connectToServer example_X ''down'' example_missing (idle [])
           = (Inl (Some \<lparr>message = ''spawn missing-binary ENOENT''\<rparr>), idle [])"
    by (simp add: example_missing_def example_simps)
  then have fails: "(\<exists>e rt1. connectToServer example_X ''down'' example_missing (idle []) = (Inl e, rt1))
       \<or> (\<exists>conn rt1 e rt2. connectToServer example_X ''down'' example_missing (idle []) = (Inr conn, rt1)
                           \<and> listTools example_X (client conn) rt1 = (Inl e, rt2))"
    by blast
  from grepCommand_skips_failed_server [OF cfg fails, of ?test "[]" "[''up'']"]
  obtain rt' where i: "grepCommand_iteration example_X ?test ?config ''down'' [] (idle []) = (Inr [], rt')"
    and l: "grepCommand_loop example_X ?test ?config [''down'', ''up''] [] (idle [])
            = grepCommand_loop example_X ?test ?config [''up''] [] rt'"
    and s: "\<not> MCP_DEBUG (idle [] :: Client list Runtime) \<longrightarrow> stderr rt' = stderr (idle [] :: Client list Runtime)"
    by blast
  have r: "grepCommand_results example_X ?test ?config (idle [])
           = (Inr [\<lparr>server = ''up'', tool = toToolInfo example_tool\<rparr>],
              (idle [])\<lparr>world := [Client ''mcp-cli'' ''0.1.0'' (StdioClientTransport (Some ''node'') None [] None),
                                    Client ''mcp-cli'' ''0.1.0'' (StdioClientTransport (Some ''node'') None [] None)]\<rparr>)"
    by (simp add: grepCommand_results_def listServerNames_def grepCommand_iteration_def grepCommand_try_def
          example_missing_def example_node_def example_simps MCP_DEBUG_def tool_matches_def
          toToolInfo_def example_tool_def)
  show ?thesis using cfg c i r by (simp add: idle_def)
qed

text \<open>
  C3 fails on the code when \<^verbatim>\<open>close()\<close> throws after the tools were listed: the entry
  with the tools is already recorded, and the \<^verbatim>\<open>catch\<close> block records a second entry for
  the same server. Here server \<open>a\<close> connects and lists its tool, and its session fails
  to close.
\<close>

theorem listCommand_duplicate_entry_on_close_failure:
  "listServerNames \<lparr>mcpServers = [(''a'', example_stuck), (''b'', example_node)]\<rparr> = [''a'', ''b'']
   \<and> fst (listCommand_servers example_X \<lparr>mcpServers = [(''a'', example_stuck), (''b'', example_node)]\<rparr> (idle []))
     = Inr [\<lparr>ServerWithTools.name = ''a'', tools = [toToolInfo example_tool]\<rparr>,
            error_entry ''a'' \<lparr>message = ''close failed''\<rparr>,
            \<lparr>ServerWithTools.name = ''b'', tools = [toToolInfo example_tool]\<rparr>]"
  by (simp add: listCommand_servers_def listServerNames_def listCommand_iteration_def listCommand_try_def
        example_stuck_def example_node_def example_simps)

end
